theory Spec2Isabelle
  imports Main "HOL-Library.Sublist"
begin

section \<open>Python exceptions and call outcomes\<close>

text \<open>
  The exceptions the handlers of the repository tell apart. \<open>ModuleNotFoundError\<close> is a
  subclass of \<open>ImportError\<close>; these two, \<open>TimeoutExpired\<close>, \<open>OSError\<close>, \<open>ValueError\<close>,
  \<open>AttributeError\<close> and \<open>RecursionError\<close> derive from \<open>Exception\<close>; \<open>KeyboardInterrupt\<close> and \<open>SystemExit\<close> derive from
  \<open>BaseException\<close> only, so that an \<open>except Exception\<close> clause lets them through.
\<close>

datatype py_exception =
    ModuleNotFoundError
  | ImportError
  | TimeoutExpired
  | OSError
  | ValueError
  | AttributeError
  | RecursionError
  | KeyboardInterrupt
  | SystemExit

fun isinstance_ImportError :: "py_exception \<Rightarrow> bool" where
  "isinstance_ImportError ModuleNotFoundError = True"
| "isinstance_ImportError ImportError = True"
| "isinstance_ImportError _ = False"

fun isinstance_Exception :: "py_exception \<Rightarrow> bool" where
  "isinstance_Exception KeyboardInterrupt = False"
| "isinstance_Exception SystemExit = False"
| "isinstance_Exception _ = True"

text \<open>What a call gives back to its caller: a value, or an exception that propagates.\<close>

datatype 'a outcome = Returned 'a | Raised py_exception

section \<open>The file system and the installer subprocess\<close>

datatype node = Dir | File

text \<open>
  The file system is the list of the paths that exist, each with its kind. Paths are the
  strings the code builds (\<open>str(path)\<close>), joined with a slash; what \<open>pathlib\<close> does with a
  right operand that is absolute or has dots or doubled slashes is left out.
\<close>

type_synonym filesystem = "(string \<times> node) list"

definition path_exists :: "filesystem \<Rightarrow> string \<Rightarrow> bool" where
  "path_exists fsys p = (map_of fsys p \<noteq> None)"

definition is_dir :: "filesystem \<Rightarrow> string \<Rightarrow> bool" where
  "is_dir fsys p = (map_of fsys p = Some Dir)"

definition path_join :: "string \<Rightarrow> string \<Rightarrow> string" where
  "path_join d name = d @ ''/'' @ name"

text \<open>
  \<open>subprocess.run(cmd, capture_output=True, text=True, timeout=300)\<close>: the process exits
  with a return code, or the call raises (\<open>TimeoutExpired\<close> after 300 seconds, \<open>OSError\<close>
  when the interpreter cannot be started, \<open>KeyboardInterrupt\<close> when the user interrupts
  the wait). The subprocess may change the file system in any way it likes.
\<close>

datatype run_result = CompletedProcess int | RunRaised py_exception

record environment =
  sys_executable :: string
  subprocess_run :: "string list \<Rightarrow> filesystem \<Rightarrow> run_result \<times> filesystem"
  md5_hexdigest :: "string \<Rightarrow> string"
  time_time :: "nat \<Rightarrow> nat"
  set_rank :: "string \<Rightarrow> nat"
  metadata_writable :: bool
  rmtree_raises :: "string \<Rightarrow> bool"

text \<open>
  The other fields of the environment: \<open>md5_hexdigest\<close> is \<open>hashlib.md5(s.encode()).hexdigest()\<close>;
  \<open>time_time n\<close> is the reading of \<open>time.time()\<close> while line \<open>n\<close> of a declaration file is
  processed; \<open>set_rank\<close> is the position a string takes in the hash table of a Python
  \<open>set\<close>, which fixes the order in which the set is iterated; \<open>metadata_writable\<close> and
  \<open>rmtree_raises\<close> say whether writing \<open>metadata.json\<close> and \<open>shutil.rmtree\<close> fail.
\<close>

record world =
  fs :: filesystem
  read_lines :: "string \<Rightarrow> string list option"
  sys_path :: "string list"
  subprocess_calls :: "string list list"
  metadata_json :: "((string \<rightharpoonup> string \<times> string \<times> string \<times> string \<times> nat) \<times> (string \<rightharpoonup> string list) \<times> nat) option"

definition pip_cmd :: "environment \<Rightarrow> string \<Rightarrow> string \<Rightarrow> string list" where
  "pip_cmd env pkg_spec target_dir =
     [sys_executable env, ''-m'', ''pip'', ''install'',
      pkg_spec,
      ''--target'', target_dir,
      ''--no-deps'',
      ''--disable-pip-version-check'',
      ''--quiet'',
      ''--timeout'', ''60'',
      ''--retries'', ''3'']"

text \<open>
  \<open>_install_package_isolated\<close>: return code zero gives \<open>True\<close>, any other return code
  \<open>False\<close>; \<open>except subprocess.TimeoutExpired\<close> and \<open>except Exception\<close> give \<open>False\<close>;
  what neither clause catches propagates. Every invocation is appended to
  \<open>subprocess_calls\<close>.
\<close>

definition install_package_isolated ::
  "environment \<Rightarrow> string \<Rightarrow> string \<Rightarrow> string \<Rightarrow> world \<Rightarrow> bool outcome \<times> world" where
  "install_package_isolated env pkg_spec target_dir plugin_name w =
     (let cmd = pip_cmd env pkg_spec target_dir;
          (result, fs') = subprocess_run env cmd (fs w);
          w' = w\<lparr>fs := fs', subprocess_calls := subprocess_calls w @ [cmd]\<rparr>
      in case result of
           CompletedProcess returncode \<Rightarrow>
             (if returncode = 0 then (Returned True, w') else (Returned False, w'))
         | RunRaised e \<Rightarrow>
             (if e = TimeoutExpired then (Returned False, w')
              else if isinstance_Exception e then (Returned False, w')
              else (Raised e, w')))"

section \<open>Python sets\<close>

text \<open>
  A Python \<open>set\<close> of strings is kept as the list of its elements in the order they were
  added, without duplicates. \<open>list(s)\<close> iterates the hash table, not the insertion order:
  it lists the elements by their rank in the table.
\<close>

definition pyset_add :: "string \<Rightarrow> string list \<Rightarrow> string list" where
  "pyset_add x s = (if x \<in> set s then s else s @ [x])"

definition py_list :: "environment \<Rightarrow> string list \<Rightarrow> string list" where
  "py_list env s = sort_key (set_rank env) s"

section \<open>The requirement parser\<close>

text \<open>
  \<open>str.isspace\<close> on the code points below 256, and \<open>str.strip()\<close>, which removes such
  characters at both ends.
\<close>

definition isspace :: "char \<Rightarrow> bool" where
  "isspace c = (of_char c \<in> {9, 10, 11, 12, 13, 28, 29, 30, 31, 32, 133, 160 :: nat})"

definition strip :: "string \<Rightarrow> string" where
  "strip s = rev (dropWhile isspace (rev (dropWhile isspace s)))"

text \<open>\<open>s.split(sep)[0]\<close>: the part of \<open>s\<close> before the first occurrence of \<open>sep\<close>.\<close>

fun split_first :: "string \<Rightarrow> string \<Rightarrow> string" where
  "split_first sep [] = []"
| "split_first sep (c # cs) = (if prefix sep (c # cs) then [] else c # split_first sep cs)"

type_synonym requirement = "string \<times> string \<times> nat"

fun parse_lines :: "nat \<Rightarrow> string list \<Rightarrow> requirement list" where
  "parse_lines line_num [] = []"
| "parse_lines line_num (l # ls) =
     (let line = strip l
      in if line \<noteq> [] \<and> \<not> prefix ''#'' line
         then (let pkg_name = strip (split_first ''<='' (split_first ''>='' (split_first ''=='' line)))
               in (pkg_name, line, line_num) # parse_lines (Suc line_num) ls)
         else parse_lines (Suc line_num) ls)"

text \<open>A file that cannot be opened gives the empty list (the exception is logged).\<close>

definition parse_requirements :: "world \<Rightarrow> string \<Rightarrow> requirement list" where
  "parse_requirements w requirements_path =
     (case read_lines w requirements_path of
        None \<Rightarrow> []
      | Some ls \<Rightarrow> parse_lines 1 ls)"

section \<open>The dependency manager\<close>

record plugin_info =
  dir :: string
  requirements_file :: string
  deps_hash :: string
  isolated_deps_dir :: string
  registered_time :: nat

record dep_record =
  package :: string
  spec :: string
  install_dir :: string
  plugin :: string
  installed_time :: nat

text \<open>
  \<open>plugins\<close> is a dict, iterated in insertion order: an association list with distinct
  keys. \<open>installed_deps\<close> maps a plugin name to a Python set of directory strings.
\<close>

record manager =
  global_deps_dir :: string
  plugins :: "(string \<times> plugin_info) list"
  installed_deps :: "string \<rightharpoonup> string list"
  dependency_metadata :: "string \<rightharpoonup> dep_record"

text \<open>\<open>list(self.installed_deps.get(plugin_name, []))\<close>.\<close>

definition get_plugin_deps_paths :: "environment \<Rightarrow> manager \<Rightarrow> string \<Rightarrow> string list" where
  "get_plugin_deps_paths env m plugin_name =
     (case installed_deps m plugin_name of None \<Rightarrow> [] | Some s \<Rightarrow> py_list env s)"

definition parent :: "string \<Rightarrow> string" where
  "parent p = rev (drop 1 (dropWhile (\<lambda>c. c \<noteq> CHR ''/'') (rev p)))"

text \<open>
  \<open>Path.mkdir(exist_ok=True)\<close>: nothing to do on a directory; \<open>FileExistsError\<close> on a
  file and \<open>FileNotFoundError\<close> under a missing parent, both subclasses of \<open>OSError\<close>.
\<close>

definition mkdir_exist_ok :: "filesystem \<Rightarrow> string \<Rightarrow> py_exception + filesystem" where
  "mkdir_exist_ok fsys p =
     (case map_of fsys p of
        Some Dir \<Rightarrow> Inr fsys
      | Some File \<Rightarrow> Inl OSError
      | None \<Rightarrow> if is_dir fsys (parent p) then Inr (fsys @ [(p, Dir)]) else Inl OSError)"

definition pkg_isolated_dir :: "environment \<Rightarrow> plugin_info \<Rightarrow> requirement \<Rightarrow> string" where
  "pkg_isolated_dir env info r =
     (case r of (pkg_name, pkg_spec, line_num) \<Rightarrow>
        path_join (isolated_deps_dir info) (pkg_name @ ''_'' @ take 12 (md5_hexdigest env pkg_spec)))"

text \<open>
  Lines 194 to 203 of the loop body: a directory that exists is a cache hit; otherwise
  the installer runs, and its \<open>False\<close> skips the requirement.
\<close>

definition cached_or_install ::
  "environment \<Rightarrow> string \<Rightarrow> plugin_info \<Rightarrow> requirement \<Rightarrow> world \<Rightarrow> bool outcome \<times> world" where
  "cached_or_install env plugin_name info r w =
     (if path_exists (fs w) (pkg_isolated_dir env info r) then (Returned True, w)
      else install_package_isolated env (fst (snd r)) (pkg_isolated_dir env info r) plugin_name w)"

definition dep_key :: "string \<Rightarrow> requirement \<Rightarrow> string" where
  "dep_key plugin_name r = plugin_name @ '':'' @ fst r"

definition dep_record_of :: "environment \<Rightarrow> string \<Rightarrow> plugin_info \<Rightarrow> requirement \<Rightarrow> dep_record" where
  "dep_record_of env plugin_name info r =
     \<lparr>package = fst r, spec = fst (snd r), install_dir = pkg_isolated_dir env info r,
      plugin = plugin_name, installed_time = time_time env (snd (snd r))\<rparr>"

text \<open>
  Lines 205 to 207: the directory goes to the front of \<open>sys.path\<close> unless it is there.
\<close>

definition add_to_sys_path :: "string \<Rightarrow> world \<Rightarrow> world" where
  "add_to_sys_path d w = (if d \<in> set (sys_path w) then w else w\<lparr>sys_path := d # sys_path w\<rparr>)"

text \<open>
  Lines 209 to 222: the directory goes into the plugin's set (a new set when the plugin
  has none), and its record under the key \<open>plugin:package\<close>.
\<close>

definition recorded_paths :: "manager \<Rightarrow> string \<Rightarrow> string list" where
  "recorded_paths m plugin_name = (case installed_deps m plugin_name of None \<Rightarrow> [] | Some s \<Rightarrow> s)"

definition record_dependency ::
  "environment \<Rightarrow> string \<Rightarrow> plugin_info \<Rightarrow> requirement \<Rightarrow> manager \<Rightarrow> manager" where
  "record_dependency env plugin_name info r m =
     m\<lparr>installed_deps :=
         (installed_deps m)(plugin_name \<mapsto> pyset_add (pkg_isolated_dir env info r) (recorded_paths m plugin_name)),
       dependency_metadata :=
         (dependency_metadata m)(dep_key plugin_name r \<mapsto> dep_record_of env plugin_name info r)\<rparr>"

definition track_dependency ::
  "environment \<Rightarrow> string \<Rightarrow> plugin_info \<Rightarrow> requirement \<Rightarrow> manager \<times> world \<Rightarrow> manager \<times> world" where
  "track_dependency env plugin_name info r mw =
     (case mw of (m, w) \<Rightarrow>
        (record_dependency env plugin_name info r m, add_to_sys_path (pkg_isolated_dir env info r) w))"

text \<open>
  The loop over the requirements, with \<open>success_count\<close>. An exception the installer lets
  through ends the loop and propagates; what was recorded until then stays.
\<close>

fun process_requirements ::
  "environment \<Rightarrow> string \<Rightarrow> plugin_info \<Rightarrow> requirement list \<Rightarrow> nat \<times> manager \<times> world
     \<Rightarrow> nat outcome \<times> manager \<times> world" where
  "process_requirements env plugin_name info [] (success_count, m, w) = (Returned success_count, m, w)"
| "process_requirements env plugin_name info (r # rs) (success_count, m, w) =
     (case cached_or_install env plugin_name info r w of
        (Raised e, w1) \<Rightarrow> (Raised e, m, w1)
      | (Returned True, w1) \<Rightarrow>
          process_requirements env plugin_name info rs
            (case track_dependency env plugin_name info r (m, w1) of (m2, w2) \<Rightarrow> (success_count + 1, m2, w2))
      | (Returned False, w1) \<Rightarrow>
          process_requirements env plugin_name info rs (success_count, m, w1))"

text \<open>
  The requirements that succeed in a run of the loop from the world \<open>w\<close>, in the order of
  the file: those whose directory exists when their turn comes, or whose installer run
  returns \<open>True\<close>. The list stops where an exception propagates.
\<close>

fun succeeded :: "environment \<Rightarrow> string \<Rightarrow> plugin_info \<Rightarrow> requirement list \<Rightarrow> world \<Rightarrow> requirement list" where
  "succeeded env plugin_name info [] w = []"
| "succeeded env plugin_name info (r # rs) w =
     (case cached_or_install env plugin_name info r w of
        (Raised e, w1) \<Rightarrow> []
      | (Returned True, w1) \<Rightarrow>
          r # succeeded env plugin_name info rs (add_to_sys_path (pkg_isolated_dir env info r) w1)
      | (Returned False, w1) \<Rightarrow> succeeded env plugin_name info rs w1)"

text \<open>
  \<open>_save_metadata\<close> overwrites \<open>metadata.json\<close> with the metadata map, the path sets as
  lists and a time stamp; a failure is logged and nothing is written.
\<close>

definition save_metadata :: "environment \<Rightarrow> manager \<Rightarrow> world \<Rightarrow> world" where
  "save_metadata env m w =
     (let metadata_file = path_join (global_deps_dir m) ''metadata.json''
      in if metadata_writable env \<and> \<not> is_dir (fs w) metadata_file
         then w\<lparr>fs := (if path_exists (fs w) metadata_file then fs w else fs w @ [(metadata_file, File)]),
                metadata_json :=
                  Some (map_option (\<lambda>r. (package r, spec r, install_dir r, plugin r, installed_time r))
                          \<circ> dependency_metadata m,
                        map_option (py_list env) \<circ> installed_deps m,
                        time_time env 0)\<rparr>
         else w)"

definition initialize_plugin_dependencies ::
  "environment \<Rightarrow> string \<Rightarrow> manager \<times> world \<Rightarrow> bool outcome \<times> manager \<times> world" where
  "initialize_plugin_dependencies env plugin_name mw =
     (case mw of (m, w) \<Rightarrow>
        (case map_of (plugins m) plugin_name of
           None \<Rightarrow> (Returned False, m, w)
         | Some info \<Rightarrow>
             (let requirements = parse_requirements w (requirements_file info)
              in if requirements = [] then (Returned True, m, w)
                 else (case mkdir_exist_ok (fs w) (isolated_deps_dir info) of
                         Inl e \<Rightarrow> (Raised e, m, w)
                       | Inr fs1 \<Rightarrow>
                           (case process_requirements env plugin_name info requirements
                                   (0, m, w\<lparr>fs := fs1\<rparr>) of
                              (Raised e, m', w') \<Rightarrow> (Raised e, m', w')
                            | (Returned success_count, m', w') \<Rightarrow>
                                (Returned (success_count > 0), m', save_metadata env m' w'))))))"

section \<open>Orphan cleanup\<close>

text \<open>
  The function of \<open>utils.py\<close>, and the method of the manager, whose body is \<open>pass\<close>.
  \<open>iterdir\<close> gives the entries of a directory itself, \<open>shutil.rmtree\<close> removes a directory
  with all that is below it; when it raises, the loop logs a warning and goes on.
  \<open>iterdir\<close> on a path that is not a directory raises, and nothing catches that.
\<close>

definition active_deps :: "environment \<Rightarrow> manager \<Rightarrow> string list" where
  "active_deps env m = concat (map (\<lambda>(plugin_name, info). get_plugin_deps_paths env m plugin_name) (plugins m))"

definition is_child :: "string \<Rightarrow> string \<Rightarrow> bool" where
  "is_child d p =
     (prefix (d @ ''/'') p \<and> drop (length d + 1) p \<noteq> [] \<and> CHR ''/'' \<notin> set (drop (length d + 1) p))"

definition iterdir :: "filesystem \<Rightarrow> string \<Rightarrow> string list" where
  "iterdir fsys d = filter (is_child d) (map fst fsys)"

definition rmtree :: "filesystem \<Rightarrow> string \<Rightarrow> filesystem" where
  "rmtree fsys item = filter (\<lambda>(p, kind). p \<noteq> item \<and> \<not> prefix (item @ ''/'') p) fsys"

fun remove_orphans :: "environment \<Rightarrow> string list \<Rightarrow> string list \<Rightarrow> filesystem \<times> nat \<Rightarrow> filesystem \<times> nat" where
  "remove_orphans env active [] (fsys, removed_count) = (fsys, removed_count)"
| "remove_orphans env active (item # items) (fsys, removed_count) =
     (if is_dir fsys item \<and> item \<notin> set active
      then (if rmtree_raises env item
            then remove_orphans env active items (fsys, removed_count)
            else remove_orphans env active items (rmtree fsys item, removed_count + 1))
      else remove_orphans env active items (fsys, removed_count))"

definition cleanup_orphaned_deps :: "environment \<Rightarrow> manager \<Rightarrow> world \<Rightarrow> unit outcome \<times> world" where
  "cleanup_orphaned_deps env m w =
     (if is_dir (fs w) (global_deps_dir m)
      then (Returned (),
            w\<lparr>fs := fst (remove_orphans env (active_deps env m) (iterdir (fs w) (global_deps_dir m))
                            (fs w, 0))\<rparr>)
      else (Raised OSError, w))"

definition manager_cleanup_orphaned_deps :: "manager \<Rightarrow> world \<Rightarrow> world" where
  "manager_cleanup_orphaned_deps m w = w"

section \<open>The import interceptor\<close>

text \<open>
  An import entry point takes \<open>sys.path\<close> and the arguments of the call, and gives the
  module or the exception, and \<open>sys.path\<close> as the import leaves it (importing runs the code
  of the module, which may change the path).
\<close>

type_synonym ('a, 'm) import_fn = "string list \<Rightarrow> 'a \<Rightarrow> 'm outcome \<times> string list"

text \<open>
  What \<open>builtins.__import__\<close> can hold: a function that the patcher did not define, or the
  function object that the \<open>n\<close>-th execution of \<open>def custom_import\<close> created. Every such
  object has the same code and reads the same patcher.
\<close>

datatype ('a, 'm) entry_point = Foreign "('a, 'm) import_fn" | CustomImport nat

text \<open>
  The attributes of the patcher (\<open>original_import_saved\<close> is \<open>None\<close> while the attribute
  does not exist), with \<open>builtins.__import__\<close> and the number of \<open>custom_import\<close> functions
  defined so far.
\<close>

record ('a, 'm) patcher =
  original_import :: "('a, 'm) import_fn"
  original_import_saved :: "('a, 'm) import_fn option"
  patched_plugins :: "string list"
  builtins_import :: "('a, 'm) entry_point"
  functions_defined :: nat

text \<open>
  Lines 85 to 106 of \<open>_get_caller_plugin\<close>, the walk up the call stack: \<open>stack\<close> holds the
  file names of the frames above \<open>_get_caller_plugin\<close>, nearest first (the first one is the
  frame of \<open>custom_import\<close>); ten of them are looked at, and for each the plugins in dict
  order.
\<close>

definition plugin_of_filename :: "(string \<times> plugin_info) list \<Rightarrow> string \<Rightarrow> string option" where
  "plugin_of_filename ps filename =
     (case filter (\<lambda>(plugin_name, info). prefix (dir info) filename) ps of
        [] \<Rightarrow> None
      | (plugin_name, info) # rest \<Rightarrow> Some plugin_name)"

fun first_attributed :: "(string \<times> plugin_info) list \<Rightarrow> string list \<Rightarrow> string option" where
  "first_attributed ps [] = None"
| "first_attributed ps (filename # frames) =
     (case plugin_of_filename ps filename of
        Some plugin_name \<Rightarrow> Some plugin_name
      | None \<Rightarrow> first_attributed ps frames)"

text \<open>
  \<open>_get_caller_plugin\<close>. Its first statement, line 83, is \<open>import inspect\<close>, which stands
  before the \<open>try\<close> of line 85: an import statement is a call of whatever
  \<open>builtins.__import__\<close> holds, here \<open>import_now\<close>, with the arguments \<open>inspect_args\<close>; when
  that call raises, the exception leaves \<open>_get_caller_plugin\<close>.
\<close>

definition get_caller_plugin ::
  "('a, 'm) import_fn \<Rightarrow> 'a \<Rightarrow> manager \<Rightarrow> string list \<Rightarrow> string list
     \<Rightarrow> string option outcome \<times> string list" where
  "get_caller_plugin import_now inspect_args m stack sp =
     (case import_now sp inspect_args of
        (Raised e, sp1) \<Rightarrow> (Raised e, sp1)
      | (Returned inspect_module, sp1) \<Rightarrow> (Returned (first_attributed (plugins m) (take 10 stack)), sp1))"

text \<open>
  The loop of \<open>custom_import\<close> over the private directories. \<open>None\<close> says that the loop
  ran to its end. The three exits of an attempt assign \<open>sys.path[:] = original_sys_path\<close>;
  an exception that neither \<open>except ImportError\<close> nor \<open>except Exception\<close> catches leaves
  the loop with the path as the import left it.
\<close>

fun try_deps_paths ::
  "('a, 'm) import_fn \<Rightarrow> 'a \<Rightarrow> string list \<Rightarrow> string list \<Rightarrow> 'm outcome option \<times> string list" where
  "try_deps_paths orig args [] sp = (None, sp)"
| "try_deps_paths orig args (deps_path # rest) sp =
     (case orig (deps_path # sp) args of
        (Returned md, sp') \<Rightarrow> (Some (Returned md), sp)
      | (Raised e, sp') \<Rightarrow>
          (if isinstance_ImportError e then try_deps_paths orig args rest sp
           else if isinstance_Exception e then (Some (Raised e), sp)
           else (Some (Raised e), sp')))"

text \<open>
  Lines 43 to 73 of \<open>custom_import\<close>, what it does once the caller is known.
\<close>

definition route_import ::
  "environment \<Rightarrow> manager \<Rightarrow> ('a, 'm) patcher \<Rightarrow> string option \<Rightarrow> string list \<Rightarrow> 'a
     \<Rightarrow> 'm outcome \<times> string list" where
  "route_import env m pt caller sp args =
     (case original_import_saved pt of
        None \<Rightarrow> (Raised AttributeError, sp)
      | Some orig \<Rightarrow>
          (case caller of
             None \<Rightarrow> orig sp args
           | Some caller_plugin \<Rightarrow>
               (if caller_plugin \<noteq> [] \<and> caller_plugin \<in> set (patched_plugins pt)
                then (case try_deps_paths orig args (get_plugin_deps_paths env m caller_plugin) sp of
                        (Some result, sp') \<Rightarrow> (result, sp')
                      | (None, sp') \<Rightarrow> orig sp' args)
                else orig sp args)))"

text \<open>
  \<open>custom_import\<close>. Line 41 calls \<open>_get_caller_plugin\<close> outside any \<open>try\<close>, and the import
  statement of its line 83 calls \<open>builtins.__import__\<close>. While that holds a \<open>custom_import\<close>
  function (line 76 puts one there), the import statement is a nested call of
  \<open>custom_import\<close>, for \<open>inspect\<close>, which runs line 41 again. \<open>depth\<close> is the number of
  nested calls that the recursion limit of the interpreter still allows; at the limit the
  call raises \<open>RecursionError\<close>. The frames above the nested \<open>_get_caller_plugin\<close> are the
  nested \<open>custom_import\<close>, the \<open>_get_caller_plugin\<close> that imports, both of the file of the
  patcher, and then the frames of the call at hand.
\<close>

primrec custom_import ::
  "nat \<Rightarrow> environment \<Rightarrow> manager \<Rightarrow> ('a, 'm) patcher \<Rightarrow> 'a \<Rightarrow> string list \<Rightarrow> string list \<Rightarrow> 'a
     \<Rightarrow> 'm outcome \<times> string list" where
  "custom_import 0 env m pt inspect_args stack sp args = (Raised RecursionError, sp)"
| "custom_import (Suc depth) env m pt inspect_args stack sp args =
     (case get_caller_plugin
             (case builtins_import pt of
                Foreign f \<Rightarrow> f
              | CustomImport n \<Rightarrow>
                  custom_import depth env m pt inspect_args (take 1 stack @ take 1 stack @ stack))
             inspect_args m stack sp of
        (Raised e, sp1) \<Rightarrow> (Raised e, sp1)
      | (Returned caller, sp1) \<Rightarrow> route_import env m pt caller sp1 args)"

text \<open>A call of \<open>builtins.__import__\<close>, that is, every import statement of the process.\<close>

definition call_import ::
  "nat \<Rightarrow> environment \<Rightarrow> manager \<Rightarrow> ('a, 'm) patcher \<Rightarrow> 'a \<Rightarrow> string list \<Rightarrow> string list \<Rightarrow> 'a
     \<Rightarrow> 'm outcome \<times> string list" where
  "call_import depth env m pt inspect_args stack sp args =
     (case builtins_import pt of
        Foreign f \<Rightarrow> f sp args
      | CustomImport n \<Rightarrow> custom_import depth env m pt inspect_args stack sp args)"

definition patch_plugin_imports ::
  "environment \<Rightarrow> manager \<Rightarrow> ('a, 'm) patcher \<Rightarrow> string \<Rightarrow> ('a, 'm) patcher" where
  "patch_plugin_imports env m pt plugin_name =
     (if plugin_name \<in> set (patched_plugins pt) then pt
      else if get_plugin_deps_paths env m plugin_name = [] then pt
      else pt\<lparr>original_import_saved :=
                  (case original_import_saved pt of
                     None \<Rightarrow> Some (original_import pt)
                   | Some saved \<Rightarrow> Some saved),
                functions_defined := Suc (functions_defined pt),
                builtins_import := CustomImport (functions_defined pt),
                patched_plugins := pyset_add plugin_name (patched_plugins pt)\<rparr>)"

definition restore_import :: "('a, 'm) patcher \<Rightarrow> ('a, 'm) patcher" where
  "restore_import pt =
     (case original_import_saved pt of
        None \<Rightarrow> pt
      | Some saved \<Rightarrow> pt\<lparr>builtins_import := Foreign saved, patched_plugins := []\<rparr>)"

section \<open>Configuration\<close>

datatype json = JNull | JBool bool | JInt int | JStr string | JList "json list" | JObj "(string \<times> json) list"

definition DEFAULT_CONFIG :: "string \<rightharpoonup> json" where
  "DEFAULT_CONFIG =
     [''auto_initialize'' \<mapsto> JBool True,
      ''check_updates'' \<mapsto> JBool False,
      ''timeout'' \<mapsto> JInt 300,
      ''mirror_url'' \<mapsto> JStr [],
      ''log_level'' \<mapsto> JStr ''INFO'',
      ''cleanup_orphaned'' \<mapsto> JBool True,
      ''max_cache_size'' \<mapsto> JStr ''1GB'',
      ''enable_web_ui'' \<mapsto> JBool True]"

text \<open>
  \<open>config.json\<close>: it does not exist; or it exists and reading it raises (it cannot be
  opened, is not JSON, or holds a value that \<open>dict.update\<close> refuses); or \<open>json.load\<close> gives
  a dict. A configuration is a dict with string keys and JSON values, which \<open>json.dump\<close>
  and \<open>json.load\<close> carry unchanged.
\<close>

datatype config_file = NoFile | Unreadable | JsonObject "string \<rightharpoonup> json"

definition load_config :: "config_file \<Rightarrow> (string \<rightharpoonup> json)" where
  "load_config file =
     (case file of
        NoFile \<Rightarrow> DEFAULT_CONFIG
      | Unreadable \<Rightarrow> DEFAULT_CONFIG
      | JsonObject user_config \<Rightarrow> DEFAULT_CONFIG ++ user_config)"

text \<open>\<open>save_config\<close>: when the file cannot be written the exception is logged.\<close>

definition save_config :: "bool \<Rightarrow> (string \<rightharpoonup> json) \<Rightarrow> config_file \<Rightarrow> config_file" where
  "save_config writable config file = (if writable then JsonObject config else file)"

section \<open>Example inputs\<close>

text \<open>The first twelve digits are those of the real MD5 digests of these specifiers.\<close>

definition example_md5 :: "string \<Rightarrow> string" where
  "example_md5 s =
     (if s = ''numpy==1.21.0'' then ''afd1f656f208aa59ce08a132101dfd90''
      else if s = ''numpy==1.26.4'' then ''11a86d3bcab302540eb764c2c9de2496''
      else if s = ''requests>=2.0'' then ''0fe04fdee97ad9904d7727ace3455371''
      else if s = ''nosuchpkg==0.0.1'' then ''bc73d78dc7dfe7e78a6710c590fd87b8''
      else ''d41d8cd98f00b204e9800998ecf8427e'')"

definition example_env ::
  "(string list \<Rightarrow> filesystem \<Rightarrow> run_result \<times> filesystem) \<Rightarrow> environment" where
  "example_env run =
     \<lparr>sys_executable = ''/usr/bin/python3'', subprocess_run = run, md5_hexdigest = example_md5,
      time_time = (\<lambda>n. 1000 + n), set_rank = (\<lambda>s. 0), metadata_writable = True,
      rmtree_raises = (\<lambda>p. False)\<rparr>"

text \<open>An installer run that the user interrupts, one that succeeds and creates its target.\<close>

definition pip_interrupted :: "string list \<Rightarrow> filesystem \<Rightarrow> run_result \<times> filesystem" where
  "pip_interrupted cmd fsys = (RunRaised KeyboardInterrupt, fsys)"

definition pip_succeeds :: "string list \<Rightarrow> filesystem \<Rightarrow> run_result \<times> filesystem" where
  "pip_succeeds cmd fsys = (CompletedProcess 0, fsys @ [(cmd ! 6, Dir)])"

definition empty_world :: world where
  "empty_world =
     \<lparr>fs = [(''/deps'', Dir)], read_lines = (\<lambda>p. None), sys_path = [''/usr/lib/python3''],
      subprocess_calls = [], metadata_json = None\<rparr>"

text \<open>An installer run that finds only \<open>numpy\<close>, and exits with status 1 for the rest.\<close>

definition pip_numpy_only :: "string list \<Rightarrow> filesystem \<Rightarrow> run_result \<times> filesystem" where
  "pip_numpy_only cmd fsys =
     (if prefix ''numpy'' (cmd ! 4) then (CompletedProcess 0, fsys @ [(cmd ! 6, Dir)])
      else (CompletedProcess 1, fsys))"

definition example_info :: "string \<Rightarrow> plugin_info" where
  "example_info name =
     \<lparr>dir = ''/comfy/custom_nodes/'' @ name,
      requirements_file = ''/comfy/custom_nodes/'' @ name @ ''/requirements.txt'',
      deps_hash = ''0123456789abcdef'',
      isolated_deps_dir = ''/deps/'' @ name,
      registered_time = 1000\<rparr>"

text \<open>A manager that has discovered the plugin \<open>plug\<close> and recorded nothing yet.\<close>

definition fresh_manager :: manager where
  "fresh_manager =
     \<lparr>global_deps_dir = ''/deps'',
      plugins = [(''plug'', example_info ''plug'')],
      installed_deps = Map.empty,
      dependency_metadata = Map.empty\<rparr>"

text \<open>The same manager after two versions of \<open>numpy\<close> were recorded for \<open>plug\<close>.\<close>

definition tracked_manager :: manager where
  "tracked_manager =
     fresh_manager\<lparr>installed_deps :=
       [''plug'' \<mapsto> [''/deps/plug/numpy_afd1f656f208'', ''/deps/plug/numpy_11a86d3bcab3'']]\<rparr>"

text \<open>A world in which the declaration file of \<open>plug\<close> holds the given lines.\<close>

definition declared_world :: "string list \<Rightarrow> world" where
  "declared_world ls =
     empty_world\<lparr>read_lines := [''/comfy/custom_nodes/plug/requirements.txt'' \<mapsto> ls]\<rparr>"

text \<open>
  An import entry point that looks a module up along \<open>sys.path\<close>: the table says which
  directory holds which module, and whether the code of the module raises when it runs.
  The module is given as its location.
\<close>

definition path_import ::
  "((string \<times> string) \<times> py_exception option) list \<Rightarrow> string list \<Rightarrow> string
     \<Rightarrow> string outcome \<times> string list" where
  "path_import table sp name =
     (case find (\<lambda>d. map_of table (d, name) \<noteq> None) sp of
        None \<Rightarrow> (Raised ModuleNotFoundError, sp)
      | Some d \<Rightarrow>
          (case map_of table (d, name) of
             Some (Some e) \<Rightarrow> (Raised e, sp)
           | _ \<Rightarrow> (Returned (d @ ''/'' @ name), sp)))"

definition example_modules :: "((string \<times> string) \<times> py_exception option) list" where
  "example_modules =
     [((''/deps/plug/numpy_afd1f656f208'', ''numpy''), None),
      ((''/deps/plug/numpy_11a86d3bcab3'', ''numpy''), None),
      ((''/usr/lib/python3/site-packages'', ''numpy''), None),
      ((''/usr/lib/python3'', ''json''), None),
      ((''/deps/plug/numpy_afd1f656f208'', ''broken''), Some ValueError),
      ((''/deps/plug/numpy_11a86d3bcab3'', ''broken''), None),
      ((''/deps/plug/numpy_afd1f656f208'', ''slow''), Some KeyboardInterrupt)]"

definition example_sys_path :: "string list" where
  "example_sys_path = [''/usr/lib/python3'', ''/usr/lib/python3/site-packages'']"

text \<open>The patcher after \<open>plug\<close> was enabled, and a call stack that leads into \<open>plug\<close>.\<close>

definition example_patcher :: "(string, string) patcher" where
  "example_patcher =
     \<lparr>original_import = path_import example_modules,
      original_import_saved = Some (path_import example_modules),
      patched_plugins = [''plug''],
      builtins_import = CustomImport 0,
      functions_defined = 1\<rparr>"

definition example_stack :: "string list" where
  "example_stack =
     [''/comfy/custom_nodes/comfyui-dependency-isolation/auto_patcher.py'',
      ''/comfy/custom_nodes/plug/nodes.py'']"

text \<open>A hash table in which the directory recorded second comes first.\<close>

definition second_first_env :: environment where
  "second_first_env =
     (example_env pip_succeeds)
       \<lparr>set_rank := (\<lambda>s. if s = ''/deps/plug/numpy_11a86d3bcab3'' then 0 else 1)\<rparr>"

text \<open>A store with a second plugin that has a recorded path, and a third one without.\<close>

definition two_plugins :: manager where
  "two_plugins =
     tracked_manager
       \<lparr>plugins := [(''plug'', example_info ''plug''), (''other'', example_info ''other''),
                    (''bare'', example_info ''bare'')],
        installed_deps :=
          [''plug'' \<mapsto> [''/deps/plug/numpy_afd1f656f208'', ''/deps/plug/numpy_11a86d3bcab3''],
           ''other'' \<mapsto> [''/deps/other/requests_0fe04fdee97a'']]\<rparr>"

text \<open>
  Declaration files: two versions of \<open>numpy\<close>; the same with a package between them that
  the installer does not find; one version of \<open>numpy\<close> and that package.
\<close>

definition two_numpy_lines :: "string list" where
  "two_numpy_lines = [''# pinned'', ''numpy==1.21.0'', [], ''  numpy==1.26.4 '']"

definition three_lines :: "string list" where
  "three_lines = [''numpy==1.21.0'', ''nosuchpkg==0.0.1'', ''numpy==1.26.4'']"

definition numpy_and_missing :: "string list" where
  "numpy_and_missing = [''numpy==1.21.0'', ''nosuchpkg==0.0.1'']"

text \<open>The manager and the world after a first initialisation in which both versions install.\<close>

definition after_first_run :: "manager \<times> world" where
  "after_first_run =
     snd (initialize_plugin_dependencies (example_env pip_succeeds) ''plug''
            (fresh_manager, declared_world two_numpy_lines))"

text \<open>
  A store, as loaded from \<open>metadata.json\<close>, that still has the path and the record of a
  package whose directory is gone.
\<close>

definition stale_manager :: manager where
  "stale_manager =
     fresh_manager
       \<lparr>installed_deps := [''plug'' \<mapsto> [''/deps/plug/nosuchpkg_bc73d78dc7df'']],
        dependency_metadata :=
          [''plug:nosuchpkg'' \<mapsto>
             \<lparr>package = ''nosuchpkg'', spec = ''nosuchpkg==0.0.1'',
              install_dir = ''/deps/plug/nosuchpkg_bc73d78dc7df'', plugin = ''plug'',
              installed_time = 900\<rparr>]\<rparr>"

text \<open>An installer run that finds \<open>numpy\<close> 1.21.0 and no other version.\<close>

definition pip_first_only :: "string list \<Rightarrow> filesystem \<Rightarrow> run_result \<times> filesystem" where
  "pip_first_only cmd fsys =
     (if cmd ! 4 = ''numpy==1.21.0'' then (CompletedProcess 0, fsys @ [(cmd ! 6, Dir)])
      else (CompletedProcess 1, fsys))"

text \<open>A world with a directory under the install root that no plugin has recorded.\<close>

definition orphan_world :: world where
  "orphan_world = empty_world\<lparr>fs := [(''/deps'', Dir), (''/deps/gone'', Dir)]\<rparr>"

section \<open>The installer: what it returns\<close>

text \<open>
  Claim C8, as the code has it: the installer returns \<open>True\<close> exactly when the subprocess
  exits with status zero; a non-zero status, a timeout and every exception derived from
  \<open>Exception\<close> give \<open>False\<close>; an exception outside the \<open>Exception\<close> hierarchy
  (\<open>KeyboardInterrupt\<close>, \<open>SystemExit\<close>) raised while the subprocess runs propagates to the
  caller.
\<close>

theorem install_package_isolated_result:
  "(fst (install_package_isolated env pkg_spec target_dir plugin_name w) = Returned True
      \<longleftrightarrow> fst (subprocess_run env (pip_cmd env pkg_spec target_dir) (fs w)) = CompletedProcess 0) \<and>
   (fst (install_package_isolated env pkg_spec target_dir plugin_name w) = Returned False
      \<longleftrightarrow> (\<exists>returncode. returncode \<noteq> 0 \<and>
             fst (subprocess_run env (pip_cmd env pkg_spec target_dir) (fs w)) = CompletedProcess returncode) \<or>
          (\<exists>e. isinstance_Exception e \<and>
             fst (subprocess_run env (pip_cmd env pkg_spec target_dir) (fs w)) = RunRaised e)) \<and>
   (fst (install_package_isolated env pkg_spec target_dir plugin_name w) = Raised e
      \<longleftrightarrow> \<not> isinstance_Exception e \<and>
          fst (subprocess_run env (pip_cmd env pkg_spec target_dir) (fs w)) = RunRaised e) \<and>
   isinstance_Exception TimeoutExpired"
  by (cases "subprocess_run env (pip_cmd env pkg_spec target_dir) (fs w)")
     (auto simp: install_package_isolated_def Let_def split: run_result.splits)

text \<open>
  Claim C8 as stated says that the installer never raises. When the user interrupts the
  wait for the subprocess, \<open>KeyboardInterrupt\<close> passes both \<open>except\<close> clauses.
\<close>

theorem install_package_isolated_interrupt:
  "fst (install_package_isolated (example_env pip_interrupted) ''numpy==1.21.0''
          ''/deps/p/numpy_afd1f656f208'' ''p'' empty_world) = Raised KeyboardInterrupt"
  by (simp add: install_package_isolated_def example_env_def pip_interrupted_def Let_def)

section \<open>The import interceptor: what a call does\<close>

text \<open>
  While a \<open>custom_import\<close> function is installed, every call of it ends in
  \<open>RecursionError\<close>, whatever is imported and from wherever: the import statement of line
  83 calls it again until the recursion limit is reached, and the exception passes lines
  83 and 41 of every nested call, none of which stands in a \<open>try\<close>. The loop over the
  private directories is not reached, and \<open>sys.path\<close> is not touched.
\<close>

lemma custom_import_installed:
  "builtins_import pt = CustomImport n \<Longrightarrow>
     custom_import depth env m pt inspect_args stack sp args = (Raised RecursionError, sp)"
proof (induction depth arbitrary: stack args)
  case 0
  then show ?case by simp
next
  case (Suc depth)
  from Suc.IH [OF Suc.prems]
  have "custom_import depth env m pt inspect_args (take 1 stack @ take 1 stack @ stack) sp inspect_args
          = (Raised RecursionError, sp)" .
  with Suc.prems show ?case
    by (simp add: get_caller_plugin_def)
qed

text \<open>
  Claim C2 at an input where it fails. The plugin \<open>plug\<close> is intercepted and the call
  comes from one of its files. Its first private directory resolves \<open>numpy\<close>, and no
  private directory holds \<open>json\<close>, which the shared environment resolves. Both imports
  raise \<open>RecursionError\<close>: the first returns no module from the private directory, the
  second is not delegated to the baseline entry point.
\<close>

theorem call_import_raises_RecursionError:
  "builtins_import example_patcher = CustomImport 0 \<and>
   first_attributed (plugins tracked_manager) (take 10 example_stack) = Some ''plug'' \<and>
   ''plug'' \<in> set (patched_plugins example_patcher) \<and>
   original_import_saved example_patcher = Some (path_import example_modules) \<and>
   fst (path_import example_modules (''/deps/plug/numpy_afd1f656f208'' # example_sys_path) ''numpy'')
     = Returned ''/deps/plug/numpy_afd1f656f208/numpy'' \<and>
   call_import 500 (example_env pip_succeeds) tracked_manager example_patcher ''inspect''
     example_stack example_sys_path ''numpy'' = (Raised RecursionError, example_sys_path) \<and>
   path_import example_modules example_sys_path ''json''
     = (Returned ''/usr/lib/python3/json'', example_sys_path) \<and>
   call_import 500 (example_env pip_succeeds) tracked_manager example_patcher ''inspect''
     example_stack example_sys_path ''json'' = (Raised RecursionError, example_sys_path)"
proof -
  have a: "builtins_import example_patcher = CustomImport 0"
    by (simp add: example_patcher_def)
  have b: "first_attributed (plugins tracked_manager) (take 10 example_stack) = Some ''plug''"
    by code_simp
  have c: "''plug'' \<in> set (patched_plugins example_patcher)"
    by (simp add: example_patcher_def)
  have d: "original_import_saved example_patcher = Some (path_import example_modules)"
    by (simp add: example_patcher_def)
  have e: "fst (path_import example_modules (''/deps/plug/numpy_afd1f656f208'' # example_sys_path) ''numpy'')
             = Returned ''/deps/plug/numpy_afd1f656f208/numpy''"
    by code_simp
  have f: "path_import example_modules example_sys_path ''json''
             = (Returned ''/usr/lib/python3/json'', example_sys_path)"
    by code_simp
  have g: "call_import 500 (example_env pip_succeeds) tracked_manager example_patcher ''inspect''
             example_stack example_sys_path name = (Raised RecursionError, example_sys_path)" for name
    using custom_import_installed [OF a] by (simp add: call_import_def a)
  from a b c d e f g show ?thesis
    by simp
qed



text \<open>
  The rest of this section is about the code below line 41, which runs only when a
  \<open>custom_import\<close> function is called while \<open>builtins.__import__\<close> holds a function of
  another origin that imports \<open>inspect\<close>.
\<close>

lemma custom_import_called_directly:
  "builtins_import pt = Foreign f \<Longrightarrow> f sp inspect_args = (Returned inspect_module, sp1) \<Longrightarrow>
     custom_import (Suc depth) env m pt inspect_args stack sp args
       = route_import env m pt (first_attributed (plugins m) (take 10 stack)) sp1 args"
  by (simp add: get_caller_plugin_def)

lemma try_deps_paths_path:
  "try_deps_paths orig args ds sp = (r, sp') \<Longrightarrow>
     (\<forall>e. r = Some (Raised e) \<longrightarrow> isinstance_Exception e) \<Longrightarrow> sp' = sp"
  by (induction ds) (auto split: prod.splits outcome.splits if_splits)

lemma try_deps_paths_skip:
  "\<forall>d \<in> set ds1. \<exists>e. fst (orig (d # sp) args) = Raised e \<and> isinstance_ImportError e \<Longrightarrow>
     try_deps_paths orig args (ds1 @ ds2) sp = try_deps_paths orig args ds2 sp"
  by (induction ds1) (auto split: prod.splits outcome.splits)

lemma try_deps_paths_exhausted:
  "\<forall>d \<in> set ds. \<exists>e. fst (orig (d # sp) args) = Raised e \<and> isinstance_ImportError e \<Longrightarrow>
     try_deps_paths orig args ds sp = (None, sp)"
  using try_deps_paths_skip [of ds orig sp args "[]"] by simp

text \<open>
  The private directories are tried in the order in which the accessor lists them. The
  first attempt that does not end in an \<open>ImportError\<close> decides: its module is returned
  with the search path as before; when every attempt ends in an \<open>ImportError\<close>, the saved
  baseline is called on the unmodified path.
\<close>

lemma route_import_routing:
  assumes "original_import_saved pt = Some orig" and "P \<noteq> []" and "P \<in> set (patched_plugins pt)"
  shows "(get_plugin_deps_paths env m P = ds1 @ d # ds2 \<and>
          (\<forall>d' \<in> set ds1. \<exists>e. fst (orig (d' # sp) args) = Raised e \<and> isinstance_ImportError e) \<and>
          fst (orig (d # sp) args) = Returned md
            \<longrightarrow> route_import env m pt (Some P) sp args = (Returned md, sp)) \<and>
         ((\<forall>d' \<in> set (get_plugin_deps_paths env m P).
              \<exists>e. fst (orig (d' # sp) args) = Raised e \<and> isinstance_ImportError e)
            \<longrightarrow> route_import env m pt (Some P) sp args = orig sp args)"
proof (intro conjI impI)
  assume h: "get_plugin_deps_paths env m P = ds1 @ d # ds2 \<and>
          (\<forall>d' \<in> set ds1. \<exists>e. fst (orig (d' # sp) args) = Raised e \<and> isinstance_ImportError e) \<and>
          fst (orig (d # sp) args) = Returned md"
  then have "try_deps_paths orig args (ds1 @ d # ds2) sp = try_deps_paths orig args (d # ds2) sp"
    by (simp add: try_deps_paths_skip)
  also have "\<dots> = (Some (Returned md), sp)"
    using h by (cases "orig (d # sp) args") auto
  finally show "route_import env m pt (Some P) sp args = (Returned md, sp)"
    using assms h by (simp add: route_import_def)
next
  assume "\<forall>d' \<in> set (get_plugin_deps_paths env m P).
              \<exists>e. fst (orig (d' # sp) args) = Raised e \<and> isinstance_ImportError e"
  then have "try_deps_paths orig args (get_plugin_deps_paths env m P) sp = (None, sp)"
    by (rule try_deps_paths_exhausted)
  then show "route_import env m pt (Some P) sp args = orig sp args"
    using assms by (simp add: route_import_def)
qed

text \<open>
  An attempt that raises an exception outside the \<open>Exception\<close> hierarchy meets no handler:
  the loop ends with the path as the import left it, the private directory in front.
\<close>

lemma try_deps_paths_uncaught:
  "orig (d # sp) args = (Raised e, sp1) \<Longrightarrow> \<not> isinstance_Exception e \<Longrightarrow>
     try_deps_paths orig args (d # ds) sp = (Some (Raised e), sp1)"
  by (cases e) simp_all

section \<open>Enabling interception\<close>

lemma patch_plugin_imports_noop:
  "plugin_name \<in> set (patched_plugins pt) \<or> get_plugin_deps_paths env m plugin_name = [] \<Longrightarrow>
     patch_plugin_imports env m pt plugin_name = pt"
  by (auto simp: patch_plugin_imports_def)

lemma patch_plugin_imports_first_activation:
  "original_import_saved pt = None \<Longrightarrow> plugin_name \<notin> set (patched_plugins pt) \<Longrightarrow>
     get_plugin_deps_paths env m plugin_name \<noteq> [] \<Longrightarrow>
     original_import_saved (patch_plugin_imports env m pt plugin_name) = Some (original_import pt)"
  by (simp add: patch_plugin_imports_def)

lemma patch_plugin_imports_keeps_saved:
  "original_import_saved pt = Some baseline \<Longrightarrow>
     original_import_saved (patch_plugin_imports env m pt plugin_name) = Some baseline"
  by (simp add: patch_plugin_imports_def)

text \<open>The saved baseline survives any sequence of enable calls, whatever the store holds then.\<close>

lemma patch_sequence_keeps_saved:
  "original_import_saved pt = Some baseline \<Longrightarrow>
     original_import_saved (foldl (\<lambda>pt (m, plugin_name). patch_plugin_imports env m pt plugin_name) pt calls)
       = Some baseline"
  by (induction calls arbitrary: pt) (auto simp: patch_plugin_imports_keeps_saved)

text \<open>
  Claim C4, as the code has it. An enable call for a plugin that is intercepted already,
  or that has no recorded paths, changes nothing. Every other enable call leaves the
  saved baseline as it is when there is one, and else saves the entry point captured at
  construction; it keeps that captured entry point, adds the plugin to the intercepted
  set, and assigns to \<open>builtins.__import__\<close> a newly defined \<open>custom_import\<close> function, which
  runs the same code on the same patcher as the one it replaces.
\<close>

theorem patch_plugin_imports_effect:
  "(plugin_name \<in> set (patched_plugins pt) \<or> get_plugin_deps_paths env m plugin_name = []
      \<longrightarrow> patch_plugin_imports env m pt plugin_name = pt) \<and>
   (plugin_name \<notin> set (patched_plugins pt) \<and> get_plugin_deps_paths env m plugin_name \<noteq> []
      \<longrightarrow> original_import_saved (patch_plugin_imports env m pt plugin_name)
            = Some (case original_import_saved pt of None \<Rightarrow> original_import pt | Some saved \<Rightarrow> saved) \<and>
          original_import (patch_plugin_imports env m pt plugin_name) = original_import pt \<and>
          patched_plugins (patch_plugin_imports env m pt plugin_name) = patched_plugins pt @ [plugin_name] \<and>
          builtins_import (patch_plugin_imports env m pt plugin_name) = CustomImport (functions_defined pt) \<and>
          functions_defined (patch_plugin_imports env m pt plugin_name) = Suc (functions_defined pt) \<and>
          call_import depth env m (patch_plugin_imports env m pt plugin_name) inspect_args stack sp args
            = custom_import depth env m (patch_plugin_imports env m pt plugin_name) inspect_args stack sp args)"
  by (auto simp: patch_plugin_imports_def pyset_add_def call_import_def split: option.splits)

text \<open>
  The theorem at two calls after \<open>plug\<close> was enabled: \<open>other\<close> has a recorded path, \<open>bare\<close>
  has none.
\<close>

theorem patch_plugin_imports_effect_witness:
  "original_import_saved (patch_plugin_imports (example_env pip_succeeds) two_plugins example_patcher ''other'')
     = Some (path_import example_modules) \<and>
   patched_plugins (patch_plugin_imports (example_env pip_succeeds) two_plugins example_patcher ''other'')
     = [''plug'', ''other''] \<and>
   builtins_import (patch_plugin_imports (example_env pip_succeeds) two_plugins example_patcher ''other'')
     = CustomImport 1 \<and>
   patch_plugin_imports (example_env pip_succeeds) two_plugins example_patcher ''bare'' = example_patcher"
proof -
  have a: "''other'' \<notin> set (patched_plugins example_patcher)"
    by (simp add: example_patcher_def)
  have b: "get_plugin_deps_paths (example_env pip_succeeds) two_plugins ''other'' \<noteq> []"
    by code_simp
  have c: "get_plugin_deps_paths (example_env pip_succeeds) two_plugins ''bare'' = []"
    by code_simp
  have d: "original_import_saved example_patcher = Some (path_import example_modules)"
      "patched_plugins example_patcher = [''plug'']" "functions_defined example_patcher = 1"
    by (simp_all add: example_patcher_def)
  show ?thesis
    using patch_plugin_imports_effect [of "''other''" example_patcher "example_env pip_succeeds" two_plugins]
          patch_plugin_imports_effect [of "''bare''" example_patcher "example_env pip_succeeds" two_plugins]
          a b c d
    by simp
qed

text \<open>
  Claim C4 as stated says that a later enable call leaves the installed entry point
  unchanged and adds the plugin. After \<open>plug\<close>, enabling \<open>other\<close> replaces the function
  object in \<open>builtins.__import__\<close>; enabling \<open>bare\<close>, which has no recorded paths, adds
  nothing.
\<close>

theorem patch_plugin_imports_reinstalls:
  "builtins_import example_patcher = CustomImport 0 \<and>
   builtins_import (patch_plugin_imports (example_env pip_succeeds) two_plugins example_patcher ''other'')
     = CustomImport 1 \<and>
   ''bare'' \<notin> set (patched_plugins
      (patch_plugin_imports (example_env pip_succeeds) two_plugins example_patcher ''bare''))"
  by (simp add: patch_plugin_imports_def example_patcher_def two_plugins_def tracked_manager_def
        fresh_manager_def get_plugin_deps_paths_def py_list_def example_env_def pyset_add_def)

section \<open>The accessor of a plugin's paths\<close>

lemma recorded_paths_record_dependency:
  "recorded_paths (record_dependency env p info r m) p
     = pyset_add (pkg_isolated_dir env info r) (recorded_paths m p)"
  by (simp add: record_dependency_def recorded_paths_def)

lemma recorded_paths_record_dependency_other:
  "q \<noteq> p \<Longrightarrow> recorded_paths (record_dependency env p info r m) q = recorded_paths m q"
  by (simp add: record_dependency_def recorded_paths_def)

lemma distinct_pyset_add: "distinct s \<Longrightarrow> distinct (pyset_add x s)"
  by (simp add: pyset_add_def)

lemma set_pyset_add: "set (pyset_add x s) = insert x (set s)"
  by (auto simp: pyset_add_def)

lemma get_plugin_deps_paths_recorded_paths:
  "get_plugin_deps_paths env m p = py_list env (recorded_paths m p)"
  by (simp add: get_plugin_deps_paths_def recorded_paths_def py_list_def split: option.splits)

text \<open>
  Claim C3, as the code has it. The paths of a plugin are a Python set, here a list
  without duplicates. The accessor yields every recorded directory exactly once, in the
  iteration order of the set; recording the directory of one more requirement adds that
  directory unless it is there.
\<close>

theorem get_plugin_deps_paths_recorded:
  assumes "distinct (recorded_paths m p)"
  shows "distinct (get_plugin_deps_paths env m p) \<and>
         set (get_plugin_deps_paths env m p) = set (recorded_paths m p) \<and>
         sorted (map (set_rank env) (get_plugin_deps_paths env m p)) \<and>
         distinct (get_plugin_deps_paths env (record_dependency env p info r m) p) \<and>
         set (get_plugin_deps_paths env (record_dependency env p info r m) p)
           = insert (pkg_isolated_dir env info r) (set (recorded_paths m p))"
  using assms
  by (simp add: get_plugin_deps_paths_recorded_paths py_list_def recorded_paths_record_dependency
        distinct_pyset_add set_pyset_add)

theorem get_plugin_deps_paths_recorded_witness:
  "distinct (recorded_paths tracked_manager ''plug'') \<and>
   set (get_plugin_deps_paths second_first_env tracked_manager ''plug'')
     = {''/deps/plug/numpy_afd1f656f208'', ''/deps/plug/numpy_11a86d3bcab3''} \<and>
   distinct (get_plugin_deps_paths second_first_env tracked_manager ''plug'')"
proof -
  have a: "recorded_paths tracked_manager ''plug''
             = [''/deps/plug/numpy_afd1f656f208'', ''/deps/plug/numpy_11a86d3bcab3'']"
    by code_simp
  have b: "distinct (recorded_paths tracked_manager ''plug'')"
    unfolding a by simp
  show ?thesis
    using get_plugin_deps_paths_recorded [OF b, of second_first_env] a b by simp
qed

text \<open>
  Claim C3 as stated says that the accessor keeps the order in which the requirements
  were processed. The declaration file lists two versions of \<open>numpy\<close>; both install, and
  are recorded in that order; the accessor lists the second one first.
\<close>

theorem get_plugin_deps_paths_not_insertion_order:
  "(case initialize_plugin_dependencies second_first_env ''plug''
           (fresh_manager, declared_world [''numpy==1.21.0'', ''numpy==1.26.4'']) of
      (result, m', w') \<Rightarrow>
        result = Returned True \<and>
        recorded_paths m' ''plug''
          = [''/deps/plug/numpy_afd1f656f208'', ''/deps/plug/numpy_11a86d3bcab3''] \<and>
        get_plugin_deps_paths second_first_env m' ''plug''
          = [''/deps/plug/numpy_11a86d3bcab3'', ''/deps/plug/numpy_afd1f656f208''])"
  by code_simp

section \<open>Configuration: saving and loading\<close>

text \<open>
  Claim C9. A configuration that was saved is loaded back with the keys it lacks filled
  from the defaults; without a file, and with a file that cannot be read, loading gives
  the defaults.
\<close>

theorem load_config_save_config:
  "load_config (save_config True config file) = DEFAULT_CONFIG ++ config \<and>
   load_config (save_config True config file) k
     = (case config k of Some v \<Rightarrow> Some v | None \<Rightarrow> DEFAULT_CONFIG k) \<and>
   load_config NoFile = DEFAULT_CONFIG \<and>
   load_config Unreadable = DEFAULT_CONFIG"
  by (simp add: load_config_def save_config_def map_add_def)

section \<open>Initialising the dependencies of a plugin\<close>

lemma add_to_sys_path_fs [simp]:
  "fs (add_to_sys_path d w) = fs w" "subprocess_calls (add_to_sys_path d w) = subprocess_calls w"
  by (simp_all add: add_to_sys_path_def)

text \<open>The loop, in terms of the requirements that succeed.\<close>

lemma process_requirements_returned:
  "process_requirements env p info rs (cnt, m, w) = (Returned n, m', w') \<Longrightarrow>
     n = cnt + length (succeeded env p info rs w) \<and>
     m' = foldl (\<lambda>m r. record_dependency env p info r m) m (succeeded env p info rs w)"
proof (induction rs arbitrary: cnt m w)
  case Nil
  then show ?case by simp
next
  case (Cons r rs)
  obtain res w1 where c: "cached_or_install env p info r w = (res, w1)"
    by (cases "cached_or_install env p info r w")
  show ?case
  proof (cases res)
    case (Raised e)
    with Cons.prems c show ?thesis by simp
  next
    case (Returned b)
    show ?thesis
    proof (cases b)
      case True
      with Cons.prems c Returned have
        "process_requirements env p info rs
           (cnt + 1, record_dependency env p info r m, add_to_sys_path (pkg_isolated_dir env info r) w1)
         = (Returned n, m', w')"
        by (simp add: track_dependency_def)
      from Cons.IH [OF this] c Returned True show ?thesis by simp
    next
      case False
      with Cons.prems c Returned have
        "process_requirements env p info rs (cnt, m, w1) = (Returned n, m', w')"
        by simp
      from Cons.IH [OF this] c Returned False show ?thesis by simp
    qed
  qed
qed

text \<open>The loop returns when no installer run is interrupted.\<close>

lemma cached_or_install_returns:
  assumes "\<forall>cmd fsys e. fst (subprocess_run env cmd fsys) = RunRaised e \<longrightarrow> isinstance_Exception e"
  shows "\<exists>b w1. cached_or_install env p info r w = (Returned b, w1)"
proof (cases "path_exists (fs w) (pkg_isolated_dir env info r)")
  case True
  then show ?thesis by (auto simp: cached_or_install_def)
next
  case False
  obtain res fs' where run:
    "subprocess_run env (pip_cmd env (fst (snd r)) (pkg_isolated_dir env info r)) (fs w) = (res, fs')"
    by (cases "subprocess_run env (pip_cmd env (fst (snd r)) (pkg_isolated_dir env info r)) (fs w)")
  show ?thesis
  proof (cases res)
    case (CompletedProcess rc)
    with False run show ?thesis
      by (auto simp: cached_or_install_def install_package_isolated_def Let_def)
  next
    case (RunRaised e)
    with assms run have "isinstance_Exception e"
      by (metis fst_conv)
    with False run RunRaised show ?thesis
      by (auto simp: cached_or_install_def install_package_isolated_def Let_def)
  qed
qed

lemma process_requirements_returns:
  assumes "\<forall>cmd fsys e. fst (subprocess_run env cmd fsys) = RunRaised e \<longrightarrow> isinstance_Exception e"
  shows "\<exists>n m' w'. process_requirements env p info rs (cnt, m, w) = (Returned n, m', w')"
proof (induction rs arbitrary: cnt m w)
  case Nil
  then show ?case by simp
next
  case (Cons r rs)
  obtain b w1 where c: "cached_or_install env p info r w = (Returned b, w1)"
    using cached_or_install_returns [OF assms] by blast
  show ?case
  proof (cases b)
    case True
    with c Cons.IH [of "cnt + 1" "record_dependency env p info r m"
                       "add_to_sys_path (pkg_isolated_dir env info r) w1"]
    show ?thesis by (simp add: track_dependency_def)
  next
    case False
    with c Cons.IH [of cnt m w1] show ?thesis by simp
  qed
qed

text \<open>What a sequence of recordings leaves in the store.\<close>

lemma recorded_paths_foldl:
  "set (recorded_paths (foldl (\<lambda>m r. record_dependency env p info r m) m rs) p)
     = set (recorded_paths m p) \<union> pkg_isolated_dir env info ` set rs"
  by (induction rs rule: rev_induct)
     (auto simp: recorded_paths_record_dependency set_pyset_add)

lemma distinct_recorded_paths_foldl:
  "distinct (recorded_paths m p) \<Longrightarrow>
     distinct (recorded_paths (foldl (\<lambda>m r. record_dependency env p info r m) m rs) p)"
  by (induction rs rule: rev_induct)
     (auto simp: recorded_paths_record_dependency distinct_pyset_add)

lemma installed_deps_foldl_other:
  "q \<noteq> p \<Longrightarrow>
     installed_deps (foldl (\<lambda>m r. record_dependency env p info r m) m rs) q = installed_deps m q"
  by (induction rs rule: rev_induct) (auto simp: record_dependency_def)

lemma dependency_metadata_foldl:
  "dependency_metadata (foldl (\<lambda>m r. record_dependency env p info r m) m rs) k
     = (case find (\<lambda>r. dep_key p r = k) (rev rs) of
          Some r \<Rightarrow> Some (dep_record_of env p info r)
        | None \<Rightarrow> dependency_metadata m k)"
  by (induction rs rule: rev_induct) (auto simp: record_dependency_def)

lemma process_requirements_all_cached:
  "\<forall>r \<in> set rs. path_exists (fs w) (pkg_isolated_dir env info r) \<Longrightarrow>
     \<exists>m' w'. process_requirements env p info rs (cnt, m, w) = (Returned (cnt + length rs), m', w') \<and>
             subprocess_calls w' = subprocess_calls w \<and> fs w' = fs w"
proof (induction rs arbitrary: cnt m w)
  case Nil
  then show ?case by simp
next
  case (Cons r rs)
  let ?w1 = "add_to_sys_path (pkg_isolated_dir env info r) w"
  from Cons.prems have "\<forall>r \<in> set rs. path_exists (fs ?w1) (pkg_isolated_dir env info r)"
    by simp
  from Cons.IH [OF this, of "cnt + 1" "record_dependency env p info r m"] Cons.prems
  show ?case
    by (simp add: cached_or_install_def track_dependency_def)
qed

lemma succeeded_all_cached:
  "\<forall>r \<in> set rs. path_exists (fs w) (pkg_isolated_dir env info r) \<Longrightarrow> succeeded env p info rs w = rs"
  by (induction rs arbitrary: w) (auto simp: cached_or_install_def)

text \<open>The requirements that succeed are requirements of the file, in the order of the file.\<close>

lemma succeeded_subseq: "subseq (succeeded env p info rs w) rs"
  by (induction rs arbitrary: w) (auto split: prod.splits outcome.splits bool.splits)

lemma save_metadata_calls [simp]:
  "subprocess_calls (save_metadata env m w) = subprocess_calls w"
  by (simp add: save_metadata_def Let_def)

lemma initialize_run:
  assumes "map_of (plugins m) p = Some info"
    and "mkdir_exist_ok (fs w) (isolated_deps_dir info) = Inr fs1"
    and "\<forall>cmd fsys e. fst (subprocess_run env cmd fsys) = RunRaised e \<longrightarrow> isinstance_Exception e"
    and "parse_requirements w (requirements_file info) \<noteq> []"
    and "succeeded env p info (parse_requirements w (requirements_file info)) (w\<lparr>fs := fs1\<rparr>) = ok"
  shows "\<exists>w'. initialize_plugin_dependencies env p (m, w)
           = (Returned (ok \<noteq> []), foldl (\<lambda>m r. record_dependency env p info r m) m ok, w')"
proof -
  let ?rs = "parse_requirements w (requirements_file info)"
  obtain n m' w' where run: "process_requirements env p info ?rs (0, m, w\<lparr>fs := fs1\<rparr>) = (Returned n, m', w')"
    using process_requirements_returns [OF assms(3)] by blast
  from process_requirements_returned [OF run] assms(5)
  have "n = length ok" and "m' = foldl (\<lambda>m r. record_dependency env p info r m) m ok"
    by simp_all
  with run assms(1,2,4) show ?thesis
    by (simp add: initialize_plugin_dependencies_def)
qed

text \<open>
  Claim C5. The plugin is registered, its install root is a directory, and the
  content-addressed directory of every requirement of its declaration file exists. Then
  initialize returns success, every requirement is a cache hit, and no installer
  subprocess was invoked.
\<close>

theorem initialize_all_cached:
  assumes "map_of (plugins m) p = Some info"
    and "parse_requirements w (requirements_file info) \<noteq> [] \<longrightarrow> is_dir (fs w) (isolated_deps_dir info)"
    and "\<forall>r \<in> set (parse_requirements w (requirements_file info)).
           path_exists (fs w) (pkg_isolated_dir env info r)"
  shows "\<exists>m' w'. initialize_plugin_dependencies env p (m, w) = (Returned True, m', w') \<and>
           subprocess_calls w' = subprocess_calls w \<and>
           succeeded env p info (parse_requirements w (requirements_file info)) w
             = parse_requirements w (requirements_file info)"
proof (cases "parse_requirements w (requirements_file info) = []")
  case True
  with assms(1) show ?thesis
    by (simp add: initialize_plugin_dependencies_def)
next
  case False
  let ?rs = "parse_requirements w (requirements_file info)"
  from False assms(2) have "mkdir_exist_ok (fs w) (isolated_deps_dir info) = Inr (fs w)"
    by (simp add: mkdir_exist_ok_def is_dir_def)
  moreover obtain m' w' where
    "process_requirements env p info ?rs (0, m, w) = (Returned (0 + length ?rs), m', w')"
    "subprocess_calls w' = subprocess_calls w"
    using process_requirements_all_cached [OF assms(3), of p 0 m] by blast
  ultimately show ?thesis
    using assms(1,3) False
    by (simp add: initialize_plugin_dependencies_def succeeded_all_cached)
qed

text \<open>
  The theorem at the second of two calls: the first call installs both versions of
  \<open>numpy\<close> with two installer runs, and the second call adds none.
\<close>

theorem initialize_all_cached_witness:
  "length (subprocess_calls (snd after_first_run)) = 2 \<and>
   (\<exists>m' w'. initialize_plugin_dependencies (example_env pip_succeeds) ''plug'' after_first_run
               = (Returned True, m', w') \<and>
            subprocess_calls w' = subprocess_calls (snd after_first_run))"
proof -
  have a: "map_of (plugins (fst after_first_run)) ''plug'' = Some (example_info ''plug'')"
    by code_simp
  have b: "parse_requirements (snd after_first_run) (requirements_file (example_info ''plug'')) \<noteq> []
             \<longrightarrow> is_dir (fs (snd after_first_run)) (isolated_deps_dir (example_info ''plug''))"
    by code_simp
  have c: "\<forall>r \<in> set (parse_requirements (snd after_first_run) (requirements_file (example_info ''plug''))).
             path_exists (fs (snd after_first_run))
               (pkg_isolated_dir (example_env pip_succeeds) (example_info ''plug'') r)"
    by code_simp
  have d: "length (subprocess_calls (snd after_first_run)) = 2"
    by code_simp
  show ?thesis
    using initialize_all_cached [OF a b c] d by auto
qed

text \<open>
  Claim C6, as the code has it. The plugin is registered, its install root can be made,
  no installer run is interrupted, and at least one requirement succeeds. Then initialize
  returns success, whatever number of requirements failed on the way; to the paths of the
  plugin it adds the directories of the requirements that succeeded, and nothing else;
  the paths of the other plugins stay; the metadata map gets, under the key of each
  requirement that succeeded, the record of the last such requirement with that key, and
  is unchanged at every other key. Entries that the store held before the call stay.
\<close>

theorem initialize_partial_success:
  assumes "map_of (plugins m) p = Some info"
    and "mkdir_exist_ok (fs w) (isolated_deps_dir info) = Inr fs1"
    and "\<forall>cmd fsys e. fst (subprocess_run env cmd fsys) = RunRaised e \<longrightarrow> isinstance_Exception e"
    and "succeeded env p info (parse_requirements w (requirements_file info)) (w\<lparr>fs := fs1\<rparr>) = ok"
    and "ok \<noteq> []"
  shows "\<exists>m' w'. initialize_plugin_dependencies env p (m, w) = (Returned True, m', w') \<and>
           set (recorded_paths m' p) = set (recorded_paths m p) \<union> pkg_isolated_dir env info ` set ok \<and>
           (\<forall>q. q \<noteq> p \<longrightarrow> installed_deps m' q = installed_deps m q) \<and>
           (\<forall>k. dependency_metadata m' k
                  = (case find (\<lambda>r. dep_key p r = k) (rev ok) of
                       Some r \<Rightarrow> Some (dep_record_of env p info r)
                     | None \<Rightarrow> dependency_metadata m k))"
proof -
  from assms(4,5) have "parse_requirements w (requirements_file info) \<noteq> []"
    by auto
  from initialize_run [OF assms(1,2,3) this assms(4)] assms(5)
  show ?thesis
    by (auto simp: recorded_paths_foldl installed_deps_foldl_other dependency_metadata_foldl)
qed

text \<open>
  The theorem at a run in which the second of three requirements fails: the loop goes on
  to the third, and the store has the two directories of \<open>numpy\<close> and no record of the
  package that failed.
\<close>

theorem initialize_partial_success_witness:
  "\<exists>m' w'. initialize_plugin_dependencies (example_env pip_numpy_only) ''plug''
              (fresh_manager, declared_world three_lines) = (Returned True, m', w') \<and>
           set (recorded_paths m' ''plug'')
             = {''/deps/plug/numpy_afd1f656f208'', ''/deps/plug/numpy_11a86d3bcab3''} \<and>
           dependency_metadata m' ''plug:nosuchpkg'' = None"
proof -
  let ?env = "example_env pip_numpy_only"
  let ?w = "declared_world three_lines"
  let ?fs1 = "[(''/deps'', Dir), (''/deps/plug'', Dir)]"
  let ?ok = "[(''numpy'', ''numpy==1.21.0'', 1::nat), (''numpy'', ''numpy==1.26.4'', 3)]"
  have a: "map_of (plugins fresh_manager) ''plug'' = Some (example_info ''plug'')"
    by code_simp
  have b: "mkdir_exist_ok (fs ?w) (isolated_deps_dir (example_info ''plug'')) = Inr ?fs1"
    by code_simp
  have c: "\<forall>cmd fsys e. fst (subprocess_run ?env cmd fsys) = RunRaised e \<longrightarrow> isinstance_Exception e"
    by (simp add: example_env_def pip_numpy_only_def)
  have d: "succeeded ?env ''plug'' (example_info ''plug'')
             (parse_requirements ?w (requirements_file (example_info ''plug''))) (?w\<lparr>fs := ?fs1\<rparr>) = ?ok"
    by code_simp
  have e: "?ok \<noteq> []" by simp
  have f: "pkg_isolated_dir ?env (example_info ''plug'') ` set ?ok
             = {''/deps/plug/numpy_afd1f656f208'', ''/deps/plug/numpy_11a86d3bcab3''}"
    by (simp add: pkg_isolated_dir_def example_env_def example_md5_def example_info_def path_join_def)
  have g: "recorded_paths fresh_manager ''plug'' = []"
    by code_simp
  have h: "dependency_metadata fresh_manager ''plug:nosuchpkg'' = None"
    by (simp add: fresh_manager_def)
  have i: "find (\<lambda>r. dep_key ''plug'' r = ''plug:nosuchpkg'') (rev ?ok) = None"
    by (simp add: dep_key_def)
  from initialize_partial_success [OF a b c d e] obtain m' w' where
    r: "initialize_plugin_dependencies ?env ''plug'' (fresh_manager, ?w) = (Returned True, m', w')"
       "set (recorded_paths m' ''plug'') = set (recorded_paths fresh_manager ''plug'')
          \<union> pkg_isolated_dir ?env (example_info ''plug'') ` set ?ok"
       "\<forall>k. dependency_metadata m' k
              = (case find (\<lambda>r. dep_key ''plug'' r = k) (rev ?ok) of
                   Some r \<Rightarrow> Some (dep_record_of ?env ''plug'' (example_info ''plug'') r)
                 | None \<Rightarrow> dependency_metadata fresh_manager k)"
    by (elim exE conjE) (rule that)
  from r(3) have "dependency_metadata m' ''plug:nosuchpkg''
      = (case find (\<lambda>r. dep_key ''plug'' r = ''plug:nosuchpkg'') (rev ?ok) of
           Some r \<Rightarrow> Some (dep_record_of ?env ''plug'' (example_info ''plug'') r)
         | None \<Rightarrow> dependency_metadata fresh_manager ''plug:nosuchpkg'')"
    by (rule spec)
  with i h have "dependency_metadata m' ''plug:nosuchpkg'' = None"
    by simp
  moreover from r(2) f g have "set (recorded_paths m' ''plug'')
             = {''/deps/plug/numpy_afd1f656f208'', ''/deps/plug/numpy_11a86d3bcab3''}"
    by simp
  ultimately show ?thesis
    using r(1) by blast
qed

text \<open>
  Claim C6 as stated says that the store afterwards has entries only for the requirements
  that succeeded. Here the store was loaded with the path and the record of a package
  whose directory is gone; \<open>numpy\<close> installs, that package fails again, initialize returns
  success, and the store still has the path and the record of the package that failed.
\<close>

theorem initialize_keeps_stale_entries:
  "(case initialize_plugin_dependencies (example_env pip_numpy_only) ''plug''
           (stale_manager, declared_world numpy_and_missing) of
      (result, m', w') \<Rightarrow>
        result = Returned True \<and>
        succeeded (example_env pip_numpy_only) ''plug'' (example_info ''plug'')
            (parse_lines 1 numpy_and_missing) ((declared_world numpy_and_missing)
               \<lparr>fs := [(''/deps'', Dir), (''/deps/plug'', Dir)]\<rparr>)
          = [(''numpy'', ''numpy==1.21.0'', 1)] \<and>
        ''/deps/plug/nosuchpkg_bc73d78dc7df'' \<in> set (recorded_paths m' ''plug'') \<and>
        map_option spec (dependency_metadata m' ''plug:nosuchpkg'') = Some ''nosuchpkg==0.0.1'')"
  by code_simp

lemma find_skip: "\<forall>x \<in> set xs. \<not> P x \<Longrightarrow> find P (xs @ ys) = find P ys"
  by (induction xs) auto

lemma pkg_isolated_dir_eq_iff:
  "fst r1 = fst r2 \<Longrightarrow>
     pkg_isolated_dir env info r1 = pkg_isolated_dir env info r2
       \<longleftrightarrow> take 12 (md5_hexdigest env (fst (snd r1))) = take 12 (md5_hexdigest env (fst (snd r2)))"
  by (cases r1; cases r2) (simp add: pkg_isolated_dir_def path_join_def)

text \<open>
  Claim C10, as the code has it. The declaration file names the same package on two
  lines, both requirements succeed, and no later requirement that succeeds names the
  package again. Then after initialize the metadata map holds, under the one key of the
  plugin and the package, the record of the later line; the paths of the plugin contain
  the content-addressed directories of both lines; and the two directories differ exactly
  when the first twelve digits of the digests of the two specifiers differ.
\<close>

theorem initialize_same_package_twice:
  assumes "map_of (plugins m) p = Some info"
    and "mkdir_exist_ok (fs w) (isolated_deps_dir info) = Inr fs1"
    and "\<forall>cmd fsys e. fst (subprocess_run env cmd fsys) = RunRaised e \<longrightarrow> isinstance_Exception e"
    and "succeeded env p info (parse_requirements w (requirements_file info)) (w\<lparr>fs := fs1\<rparr>)
           = xs @ r1 # ys @ r2 # zs"
    and "fst r1 = fst r2"
    and "\<forall>r \<in> set zs. fst r \<noteq> fst r2"
  shows "\<exists>m' w'. initialize_plugin_dependencies env p (m, w) = (Returned True, m', w') \<and>
           dep_key p r1 = dep_key p r2 \<and>
           dependency_metadata m' (dep_key p r2) = Some (dep_record_of env p info r2) \<and>
           pkg_isolated_dir env info r1 \<in> set (recorded_paths m' p) \<and>
           pkg_isolated_dir env info r2 \<in> set (recorded_paths m' p) \<and>
           (pkg_isolated_dir env info r1 \<noteq> pkg_isolated_dir env info r2
              \<longleftrightarrow> take 12 (md5_hexdigest env (fst (snd r1))) \<noteq> take 12 (md5_hexdigest env (fst (snd r2))))"
proof -
  let ?ok = "xs @ r1 # ys @ r2 # zs"
  let ?m' = "foldl (\<lambda>m r. record_dependency env p info r m) m ?ok"
  have ne: "parse_requirements w (requirements_file info) \<noteq> []"
    using assms(4) by auto
  from initialize_run [OF assms(1,2,3) ne assms(4)]
  obtain w' where run: "initialize_plugin_dependencies env p (m, w) = (Returned True, ?m', w')"
    by auto
  have "\<forall>r \<in> set (rev zs). \<not> dep_key p r = dep_key p r2"
    using assms(6) by (simp add: dep_key_def)
  then have "find (\<lambda>r. dep_key p r = dep_key p r2) (rev zs @ r2 # rev ys @ r1 # rev xs) = Some r2"
    by (simp add: find_skip)
  then have found: "find (\<lambda>r. dep_key p r = dep_key p r2) (rev ?ok) = Some r2"
    by simp
  have meta: "dependency_metadata ?m' (dep_key p r2) = Some (dep_record_of env p info r2)"
    by (subst dependency_metadata_foldl) (simp only: found option.simps)
  have paths: "pkg_isolated_dir env info r1 \<in> set (recorded_paths ?m' p)"
      "pkg_isolated_dir env info r2 \<in> set (recorded_paths ?m' p)"
    unfolding recorded_paths_foldl by simp_all
  have key: "dep_key p r1 = dep_key p r2"
    using assms(5) by (simp add: dep_key_def)
  have dirs: "pkg_isolated_dir env info r1 \<noteq> pkg_isolated_dir env info r2
      \<longleftrightarrow> take 12 (md5_hexdigest env (fst (snd r1))) \<noteq> take 12 (md5_hexdigest env (fst (snd r2)))"
    using pkg_isolated_dir_eq_iff [OF assms(5)] by simp
  from run key meta paths dirs show ?thesis
    by blast
qed

text \<open>The theorem at the file with two versions of \<open>numpy\<close>, both of which install.\<close>

theorem initialize_same_package_twice_witness:
  "\<exists>m' w'. initialize_plugin_dependencies (example_env pip_succeeds) ''plug''
              (fresh_manager, declared_world two_numpy_lines) = (Returned True, m', w') \<and>
           map_option spec (dependency_metadata m' ''plug:numpy'') = Some ''numpy==1.26.4'' \<and>
           ''/deps/plug/numpy_afd1f656f208'' \<in> set (recorded_paths m' ''plug'') \<and>
           ''/deps/plug/numpy_11a86d3bcab3'' \<in> set (recorded_paths m' ''plug'')"
proof -
  let ?env = "example_env pip_succeeds"
  let ?w = "declared_world two_numpy_lines"
  let ?fs1 = "[(''/deps'', Dir), (''/deps/plug'', Dir)]"
  let ?r1 = "(''numpy'', ''numpy==1.21.0'', 2::nat)"
  let ?r2 = "(''numpy'', ''numpy==1.26.4'', 4::nat)"
  have a: "map_of (plugins fresh_manager) ''plug'' = Some (example_info ''plug'')"
    by code_simp
  have b: "mkdir_exist_ok (fs ?w) (isolated_deps_dir (example_info ''plug'')) = Inr ?fs1"
    by code_simp
  have c: "\<forall>cmd fsys e. fst (subprocess_run ?env cmd fsys) = RunRaised e \<longrightarrow> isinstance_Exception e"
    by (simp add: example_env_def pip_succeeds_def)
  have d: "succeeded ?env ''plug'' (example_info ''plug'')
             (parse_requirements ?w (requirements_file (example_info ''plug''))) (?w\<lparr>fs := ?fs1\<rparr>)
           = [] @ ?r1 # [] @ ?r2 # []"
    by code_simp
  have e: "fst ?r1 = fst ?r2" by simp
  have f: "\<forall>r \<in> set ([] :: requirement list). fst r \<noteq> fst ?r2" by simp
  have g: "dep_key ''plug'' ?r2 = ''plug:numpy''"
    by (simp add: dep_key_def)
  have h: "spec (dep_record_of ?env ''plug'' (example_info ''plug'') ?r2) = ''numpy==1.26.4''"
    by (simp add: dep_record_of_def)
  have i: "pkg_isolated_dir ?env (example_info ''plug'') ?r1 = ''/deps/plug/numpy_afd1f656f208''"
    by code_simp
  have j: "pkg_isolated_dir ?env (example_info ''plug'') ?r2 = ''/deps/plug/numpy_11a86d3bcab3''"
    by code_simp
  from initialize_same_package_twice [OF a b c d e f] obtain m' w' where
    r: "initialize_plugin_dependencies ?env ''plug'' (fresh_manager, ?w) = (Returned True, m', w')"
       "dependency_metadata m' (dep_key ''plug'' ?r2)
          = Some (dep_record_of ?env ''plug'' (example_info ''plug'') ?r2)"
       "pkg_isolated_dir ?env (example_info ''plug'') ?r1 \<in> set (recorded_paths m' ''plug'')"
       "pkg_isolated_dir ?env (example_info ''plug'') ?r2 \<in> set (recorded_paths m' ''plug'')"
    by (elim exE conjE) (rule that)
  from r(2) g h have "map_option spec (dependency_metadata m' ''plug:numpy'') = Some ''numpy==1.26.4''"
    by simp
  with r(1) r(3) r(4) i j show ?thesis
    by (intro exI [of _ m'] exI [of _ w']) simp
qed

text \<open>
  Claim C10 as stated does not ask that the two lines succeed. Here the installer finds
  the version of the first line and not that of the second: the record under the key is
  the one of the earlier line, and the paths hold one directory.
\<close>

theorem initialize_later_line_fails:
  "(case initialize_plugin_dependencies (example_env pip_first_only) ''plug''
           (fresh_manager, declared_world two_numpy_lines) of
      (result, m', w') \<Rightarrow>
        result = Returned True \<and>
        map_option spec (dependency_metadata m' ''plug:numpy'') = Some ''numpy==1.21.0'' \<and>
        recorded_paths m' ''plug'' = [''/deps/plug/numpy_afd1f656f208''])"
  by code_simp

section \<open>Orphan cleanup: what it removes\<close>

text \<open>
  What the cleanup does when no removal fails: of the paths that exist it removes those at
  or below an entry of the install root that is a directory and is not itself a recorded
  path, and only those. Whether a path below such an entry is recorded plays no role.
\<close>

lemma map_of_rmtree:
  "map_of (rmtree fsys item) q
     = (if q = item \<or> prefix (item @ ''/'') q then None else map_of fsys q)"
  by (induction fsys) (auto simp: rmtree_def)

lemma below_trans:
  "prefix (a @ ''/'') b \<Longrightarrow> q = b \<or> prefix (b @ ''/'') q \<Longrightarrow> prefix (a @ ''/'') q"
  by (auto simp: prefix_def)

lemma remove_orphans_exists:
  assumes "\<forall>item. \<not> rmtree_raises env item"
  shows "path_exists (fst (remove_orphans env active items (fsys, n))) q
           \<longleftrightarrow> path_exists fsys q \<and>
               \<not> (\<exists>item \<in> set items. is_dir fsys item \<and> item \<notin> set active \<and>
                      (q = item \<or> prefix (item @ ''/'') q))"
proof (induction items arbitrary: fsys n)
  case Nil
  then show ?case by simp
next
  case (Cons item items)
  show ?case
  proof (cases "is_dir fsys item \<and> item \<notin> set active")
    case False
    with Cons.IH [of fsys n] show ?thesis by auto
  next
    case True
    have dir: "is_dir (rmtree fsys item) i \<longleftrightarrow> is_dir fsys i \<and> \<not> (i = item \<or> prefix (item @ ''/'') i)" for i
      by (simp add: is_dir_def map_of_rmtree)
    have ex: "path_exists (rmtree fsys item) q
                \<longleftrightarrow> path_exists fsys q \<and> \<not> (q = item \<or> prefix (item @ ''/'') q)"
      by (simp add: path_exists_def map_of_rmtree)
    from True assms have
      "path_exists (fst (remove_orphans env active (item # items) (fsys, n))) q
         \<longleftrightarrow> path_exists (fst (remove_orphans env active items (rmtree fsys item, n + 1))) q"
      by simp
    also have "\<dots> \<longleftrightarrow> path_exists (rmtree fsys item) q \<and>
        \<not> (\<exists>i \<in> set items. is_dir (rmtree fsys item) i \<and> i \<notin> set active \<and>
               (q = i \<or> prefix (i @ ''/'') q))"
      by (rule Cons.IH)
    also have "\<dots> \<longleftrightarrow> path_exists fsys q \<and>
        \<not> (\<exists>i \<in> set (item # items). is_dir fsys i \<and> i \<notin> set active \<and>
               (q = i \<or> prefix (i @ ''/'') q))"
      using True below_trans [of item _ q] unfolding dir ex by auto
    finally show ?thesis .
  qed
qed

lemma cleanup_orphaned_deps_removes:
  assumes "\<forall>item. \<not> rmtree_raises env item" and "is_dir (fs w) (global_deps_dir m)"
  shows "path_exists (fs (snd (cleanup_orphaned_deps env m w))) q
           \<longleftrightarrow> path_exists (fs w) q \<and>
               \<not> (\<exists>item \<in> set (iterdir (fs w) (global_deps_dir m)).
                      is_dir (fs w) item \<and> item \<notin> set (active_deps env m) \<and>
                      (q = item \<or> prefix (item @ ''/'') q))"
  using assms(2) remove_orphans_exists [OF assms(1)]
  by (simp add: cleanup_orphaned_deps_def)

text \<open>
  Claim C1 at an input where it fails. After the first initialisation of \<open>plug\<close> both
  directories of \<open>numpy\<close> exist and are the recorded paths of the plugin. The cleanup looks
  at the entries of the install root itself: the install root of the plugin is a directory
  and is not a recorded path, so it is removed with the two recorded directories below it.
  The method of the manager removes nothing, also not a directory that no plugin records.
\<close>

theorem cleanup_orphaned_deps_removes_recorded:
  "(case after_first_run of
      (m, w) \<Rightarrow>
        active_deps (example_env pip_succeeds) m
          = [''/deps/plug/numpy_afd1f656f208'', ''/deps/plug/numpy_11a86d3bcab3''] \<and>
        is_dir (fs w) ''/deps/plug/numpy_afd1f656f208'' \<and>
        is_dir (fs w) ''/deps/plug/numpy_11a86d3bcab3'' \<and>
        iterdir (fs w) (global_deps_dir m) = [''/deps/plug'', ''/deps/metadata.json''] \<and>
        fst (cleanup_orphaned_deps (example_env pip_succeeds) m w) = Returned () \<and>
        fs (snd (cleanup_orphaned_deps (example_env pip_succeeds) m w))
          = [(''/deps'', Dir), (''/deps/metadata.json'', File)]) \<and>
   active_deps (example_env pip_succeeds) fresh_manager = [] \<and>
   fs (manager_cleanup_orphaned_deps fresh_manager orphan_world)
     = [(''/deps'', Dir), (''/deps/gone'', Dir)]"
  by code_simp

end
